theory Spec2Isabelle
  imports Complex_Main "HOL-Library.Sublist"
begin

section \<open>The result document\<close>

text \<open>
  The dashboard reads one JSON document (\<^verbatim>\<open>leaderboard_data.json\<close>) and projects it into
  markup. The renderers are dynamically typed: they read properties of whatever the
  parser returned, test values for truthiness and interpolate them into template
  literals. The embedding therefore keeps the document as a tree of JavaScript values.

  \<^item> A number is the exact rational value of the parsed double. Division, remainder and
    \<^verbatim>\<open>Math.floor\<close> are computed exactly; the decimal digits of a number that is not an
    integer below \<open>2^53\<close> are produced by the platform's shortest-round-trip printer,
    which is a parameter \<open>nf\<close> of every function that prints numbers.
  \<^item> A string is its list of characters (text beyond ASCII as its UTF-8 bytes, so
    that a lone surrogate does not occur). The scripts compare the length of a string
    with zero only, so the unit of the length does not matter.
  \<^item> An object is its list of members in document order; on a duplicated key the
    parser keeps the last member.
  \<^item> A read of a property with a fixed name (\<^verbatim>\<open>data.models\<close>, \<^verbatim>\<open>s.passed\<close>,
    \<^verbatim>\<open>x.length\<close>) sees own properties: none of the names the scripts use is a member of
    a built-in prototype. A read with a key computed from the document
    (\<^verbatim>\<open>data.model_stats[model]\<close>) sees the own properties too, and is left out of the
    embedding where the key would reach a prototype. The methods the scripts call (\<^verbatim>\<open>map\<close>,
    \<^verbatim>\<open>forEach\<close>, \<^verbatim>\<open>includes\<close>, \<^verbatim>\<open>join\<close>) are modelled at their call sites.
\<close>

datatype jsval =
    JUndefined
  | JNull
  | JBool bool
  | JNum rat
  | JStr string
  | JArr "jsval list"
  | JObj "(string \<times> jsval) list"

text \<open>
  \<open>TypeError\<close> is the exception of reading a property of \<^verbatim>\<open>undefined\<close> or \<^verbatim>\<open>null\<close>, or of
  calling something that is not a function. \<open>Unsupported\<close> is not an exception of the
  program: it marks an input that the embedding does not cover. These are the conversion of
  a string, boolean, array or object to a number, and a computed property read that
  leaves the own properties (a key that names a member of \<^verbatim>\<open>Object.prototype\<close>, or any
  key but an index on something that is not an object).
\<close>

datatype error = TypeError | Unsupported

fun bind_res :: "error + 'a \<Rightarrow> ('a \<Rightarrow> error + 'b) \<Rightarrow> error + 'b" where
  "bind_res (Inl e) f = Inl e"
| "bind_res (Inr x) f = f x"

fun map_res :: "('a \<Rightarrow> error + 'b) \<Rightarrow> 'a list \<Rightarrow> error + 'b list" where
  "map_res f [] = Inr []"
| "map_res f (x # xs) =
     (case f x of
        Inl e \<Rightarrow> Inl e
      | Inr y \<Rightarrow> (case map_res f xs of Inl e \<Rightarrow> Inl e | Inr ys \<Rightarrow> Inr (y # ys)))"

subsection \<open>Numbers and strings\<close>

definition digit_char :: "nat \<Rightarrow> char" where
  "digit_char d = ''0123456789'' ! d"

fun show_nat :: "nat \<Rightarrow> string" where
  "show_nat n =
     (if n < 10 then [digit_char n] else show_nat (n div 10) @ [digit_char (n mod 10)])"

declare show_nat.simps [simp del]

definition show_int :: "int \<Rightarrow> string" where
  "show_int i = (if i < 0 then CHR ''-'' # show_nat (nat (- i)) else show_nat (nat i))"

text \<open>\<^verbatim>\<open>Number::toString\<close>: integers below \<open>2^53\<close> print as their decimal digits.\<close>

definition num_str :: "(rat \<Rightarrow> string) \<Rightarrow> rat \<Rightarrow> string" where
  "num_str nf q =
     (if of_int \<lfloor>q\<rfloor> = q \<and> \<bar>q\<bar> < 9007199254740992 then show_int \<lfloor>q\<rfloor> else nf q)"

text \<open>\<^verbatim>\<open>a % b\<close> for \<open>b \<noteq> 0\<close>: the quotient is truncated towards zero.\<close>

definition js_trunc :: "rat \<Rightarrow> int" where
  "js_trunc q = (if q < 0 then - \<lfloor>- q\<rfloor> else \<lfloor>q\<rfloor>)"

definition js_rem :: "rat \<Rightarrow> rat \<Rightarrow> rat" where
  "js_rem a b = a - b * of_int (js_trunc (a / b))"

fun join :: "string \<Rightarrow> string list \<Rightarrow> string" where
  "join sep [] = []"
| "join sep [x] = x"
| "join sep (x # y # ys) = x @ sep @ join sep (y # ys)"

text \<open>\<^verbatim>\<open>ToString\<close>, as applied by template literals and by \<^verbatim>\<open>Array.prototype.join\<close>.\<close>

fun to_str :: "(rat \<Rightarrow> string) \<Rightarrow> jsval \<Rightarrow> string" where
  "to_str nf JUndefined = ''undefined''"
| "to_str nf JNull = ''null''"
| "to_str nf (JBool b) = (if b then ''true'' else ''false'')"
| "to_str nf (JNum q) = num_str nf q"
| "to_str nf (JStr s) = s"
| "to_str nf (JArr xs) =
     join '','' (map (\<lambda>x. if x = JUndefined \<or> x = JNull then [] else to_str nf x) xs)"
| "to_str nf (JObj kvs) = ''[object Object]''"

definition array_join :: "(rat \<Rightarrow> string) \<Rightarrow> string \<Rightarrow> jsval list \<Rightarrow> string" where
  "array_join nf sep xs =
     join sep (map (\<lambda>x. if x = JUndefined \<or> x = JNull then [] else to_str nf x) xs)"

fun truthy :: "jsval \<Rightarrow> bool" where
  "truthy JUndefined = False"
| "truthy JNull = False"
| "truthy (JBool b) = b"
| "truthy (JNum q) = (q \<noteq> 0)"
| "truthy (JStr s) = (s \<noteq> [])"
| "truthy (JArr xs) = True"
| "truthy (JObj kvs) = True"

subsection \<open>Property reads\<close>

definition own_lookup :: "(string \<times> jsval) list \<Rightarrow> string \<Rightarrow> jsval" where
  "own_lookup kvs k = (case map_of (rev kvs) k of None \<Rightarrow> JUndefined | Some v \<Rightarrow> v)"

definition index_key :: "string \<Rightarrow> nat \<Rightarrow> nat option" where
  "index_key k n = find (\<lambda>i. show_nat i = k) [0..<n]"

text \<open>\<^verbatim>\<open>v.k\<close>, for the fixed names \<open>k\<close> that the scripts read.\<close>

fun getprop :: "jsval \<Rightarrow> string \<Rightarrow> error + jsval" where
  "getprop JUndefined k = Inl TypeError"
| "getprop JNull k = Inl TypeError"
| "getprop (JBool b) k = Inr JUndefined"
| "getprop (JNum q) k = Inr JUndefined"
| "getprop (JStr s) k = (if k = ''length'' then Inr (JNum (of_nat (length s))) else Inr JUndefined)"
| "getprop (JArr xs) k = (if k = ''length'' then Inr (JNum (of_nat (length xs))) else Inr JUndefined)"
| "getprop (JObj kvs) k = Inr (own_lookup kvs k)"

text \<open>\<^verbatim>\<open>v?.k\<close>.\<close>

definition optchain :: "jsval \<Rightarrow> string \<Rightarrow> error + jsval" where
  "optchain v k = (if v = JUndefined \<or> v = JNull then Inr JUndefined else getprop v k)"

text \<open>
  \<^verbatim>\<open>v[k]\<close>, for a key \<open>k\<close> computed from the document. An object that the parser built
  inherits the members of \<^verbatim>\<open>Object.prototype\<close>.
\<close>

definition object_prototype_names :: "string list" where
  "object_prototype_names =
     [''constructor'', ''hasOwnProperty'', ''isPrototypeOf'', ''propertyIsEnumerable'',
      ''toLocaleString'', ''toString'', ''valueOf'', ''__proto__'', ''__defineGetter__'',
      ''__defineSetter__'', ''__lookupGetter__'', ''__lookupSetter__'']"

fun getkey :: "jsval \<Rightarrow> string \<Rightarrow> error + jsval" where
  "getkey JUndefined k = Inl TypeError"
| "getkey JNull k = Inl TypeError"
| "getkey (JObj kvs) k =
     (case map_of (rev kvs) k of
        Some v \<Rightarrow> Inr v
      | None \<Rightarrow> if k \<in> set object_prototype_names then Inl Unsupported else Inr JUndefined)"
| "getkey (JArr xs) k =
     (if k = ''length'' then Inr (JNum (of_nat (length xs)))
      else case index_key k (length xs) of
             Some i \<Rightarrow> Inr (xs ! i)
           | None \<Rightarrow> Inl Unsupported)"
| "getkey v k = Inl Unsupported"

text \<open>\<^verbatim>\<open>v?.[k]\<close>.\<close>

definition optkey :: "jsval \<Rightarrow> string \<Rightarrow> error + jsval" where
  "optkey v k = (if v = JUndefined \<or> v = JNull then Inr JUndefined else getkey v k)"

text \<open>The receiver of \<^verbatim>\<open>map\<close> or \<^verbatim>\<open>forEach\<close>: only an array has these methods.\<close>

fun as_array :: "jsval \<Rightarrow> error + jsval list" where
  "as_array (JArr xs) = Inr xs"
| "as_array v = Inl TypeError"

section \<open>Duration formatter\<close>

text \<open>\<^verbatim>\<open>renderDuration\<close> (site/app.js).\<close>

definition renderDuration :: "(rat \<Rightarrow> string) \<Rightarrow> jsval \<Rightarrow> error + string" where
  \<open>renderDuration nf seconds =
     (case seconds of
        JNull \<Rightarrow> Inr []
      | JUndefined \<Rightarrow> Inr []
      | JNum s \<Rightarrow>
          (let display =
             (if s < 60 then num_str nf s @ ''s''
              else if s < 3600 then
                (let mins = \<lfloor>s / 60\<rfloor>;
                     secs = js_rem s 60
                 in num_str nf (of_int mins) @ ''m '' @ num_str nf secs @ ''s'')
              else
                (let hours = \<lfloor>s / 3600\<rfloor>;
                     mins = \<lfloor>js_rem s 3600 / 60\<rfloor>
                 in num_str nf (of_int hours) @ ''h '' @ num_str nf (of_int mins) @ ''m''))
           in Inr (''<span class="exam-duration">'' @ display @ ''</span>''))
      | _ \<Rightarrow> Inl Unsupported)\<close>

text \<open>Fragments of HTML are strings; the templates below are functions of their holes.\<close>

type_synonym markup = string

section \<open>HTML escaper\<close>

text \<open>
  \<^verbatim>\<open>esc\<close> (site/app.js) and \<^verbatim>\<open>escapeHtml\<close> (part_000, line 170) store the value as the
  text of a fresh \<^verbatim>\<open>div\<close> and read back its \<^verbatim>\<open>innerHTML\<close>. The platform serialises a text
  node by replacing \<^verbatim>\<open>&\<close>, \<^verbatim>\<open><\<close>, \<^verbatim>\<open>>\<close> and the no-break space (U+00A0, the bytes
  \<open>C2 A0\<close>); quotes are replaced in attribute values only, so not here. Assigning
  \<^verbatim>\<open>null\<close> or \<^verbatim>\<open>undefined\<close> to \<^verbatim>\<open>textContent\<close> gives the empty text.
\<close>

definition esc_char :: "char \<Rightarrow> string" where
  \<open>esc_char c =
     (if c = CHR ''&'' then ''&amp;''
      else if c = CHR ''<'' then ''&lt;''
      else if c = CHR ''>'' then ''&gt;''
      else [c])\<close>

fun serialize_text :: "string \<Rightarrow> string" where
  "serialize_text [] = []"
| "serialize_text [c] = esc_char c"
| "serialize_text (c # d # cs) =
     (if c = CHR 0xC2 \<and> d = CHR 0xA0 then ''&nbsp;'' @ serialize_text cs
      else esc_char c @ serialize_text (d # cs))"

text \<open>
  The inverse of \<open>serialize_text\<close> on its range: it reads the four character references
  back, as an HTML parser does. It is not part of the scripts; it is the means of showing
  that the serialisation loses nothing.
\<close>

fun parse_text :: "string \<Rightarrow> string" where
  "parse_text [] = []"
| "parse_text (c # cs) =
     (if c = CHR ''&'' \<and> take 4 cs = ''amp;'' then CHR ''&'' # parse_text (drop 4 cs)
      else if c = CHR ''&'' \<and> take 3 cs = ''lt;'' then CHR ''<'' # parse_text (drop 3 cs)
      else if c = CHR ''&'' \<and> take 3 cs = ''gt;'' then CHR ''>'' # parse_text (drop 3 cs)
      else if c = CHR ''&'' \<and> take 5 cs = ''nbsp;'' then
        CHR 0xC2 # CHR 0xA0 # parse_text (drop 5 cs)
      else c # parse_text cs)"

definition text_content :: "(rat \<Rightarrow> string) \<Rightarrow> jsval \<Rightarrow> string" where
  "text_content nf v = (if v = JUndefined \<or> v = JNull then [] else to_str nf v)"

definition esc :: "(rat \<Rightarrow> string) \<Rightarrow> jsval \<Rightarrow> string" where
  "esc nf s = serialize_text (text_content nf s)"

definition escapeHtml :: "(rat \<Rightarrow> string) \<Rightarrow> jsval \<Rightarrow> string" where
  "escapeHtml nf text = serialize_text (text_content nf text)"

text \<open>
  \<^verbatim>\<open>encodeURIComponent\<close>: every byte of the UTF-8 text outside the unreserved set becomes
  \<^verbatim>\<open>%XX\<close>.
\<close>

definition uri_unreserved :: "char \<Rightarrow> bool" where
  \<open>uri_unreserved c =
     (c \<in> set (''ABCDEFGHIJKLMNOPQRSTUVWXYZabcdefghijklmnopqrstuvwxyz0123456789-_.!~*()''
               @ [CHR 0x27]))\<close>

definition hex_char :: "nat \<Rightarrow> char" where
  "hex_char d = ''0123456789ABCDEF'' ! d"

definition pct_encode :: "char \<Rightarrow> string" where
  \<open>pct_encode c =
     (if uri_unreserved c then [c]
      else [CHR ''%'', hex_char (of_char c div 16), hex_char (of_char c mod 16)])\<close>

definition encodeURIComponent :: "(rat \<Rightarrow> string) \<Rightarrow> jsval \<Rightarrow> string" where
  "encodeURIComponent nf v = concat (map pct_encode (to_str nf v))"

section \<open>Leaderboard renderer\<close>

text \<open>
  A renderer returns the markup it assigns to its table body, or the exception it
  throws. The page shell is taken to contain the elements the scripts look up by id.
\<close>

definition no_results_yet :: string where
  \<open>no_results_yet = ''<tr><td colspan="4">No results yet</td></tr>''\<close>

text \<open>The row template of \<^verbatim>\<open>renderLeaderboard\<close> in site/app.js, as a function of its holes.\<close>

definition leaderboard_row :: "markup \<Rightarrow> markup \<Rightarrow> markup \<Rightarrow> markup \<Rightarrow> markup \<Rightarrow> markup \<Rightarrow> markup" where
  \<open>leaderboard_row uri rank name passed tot percentage =
     ''\<newline>            <tr onclick="window.location.href='detail.html?model='' @ uri
     @ '''" class="clickable">\<newline>                <td class="rank">'' @ rank
     @ ''</td>\<newline>                <td class="model">'' @ name
     @ ''</td>\<newline>                <td class="score">'' @ passed @ ''/'' @ tot
     @ ''</td>\<newline>                <td class="bar-cell"><div class="bar"><div class="bar-fill" style="width:''
     @ percentage
     @ ''%"></div></div></td>\<newline>            </tr>\<newline>        ''\<close>

text \<open>The callback of \<^verbatim>\<open>data.models.map\<close>: \<open>i\<close> is the index of \<open>model\<close> in the array.\<close>

definition leaderboard_entry :: "(rat \<Rightarrow> string) \<Rightarrow> jsval \<Rightarrow> nat \<times> jsval \<Rightarrow> error + string" where
  "leaderboard_entry nf data im =
     (case im of (i, model) \<Rightarrow>
        bind_res (getprop data ''model_stats'') (\<lambda>model_stats.
        bind_res (getkey model_stats (to_str nf model)) (\<lambda>s.
        bind_res (getprop s ''passed'') (\<lambda>passed.
        bind_res (getprop s ''total'') (\<lambda>total.
        bind_res (getprop s ''percentage'') (\<lambda>percentage.
          Inr (leaderboard_row (encodeURIComponent nf model)
                 (to_str nf (JNum (of_nat i + 1))) (esc nf model)
                 (to_str nf passed) (to_str nf total) (to_str nf percentage))))))))"

definition renderLeaderboard :: "(rat \<Rightarrow> string) \<Rightarrow> jsval \<Rightarrow> error + string" where
  "renderLeaderboard nf data =
     bind_res (getprop data ''models'') (\<lambda>models.
     bind_res (optchain models ''length'') (\<lambda>len.
       if \<not> truthy len then Inr no_results_yet
       else
         bind_res (as_array models) (\<lambda>ms.
         bind_res (map_res (leaderboard_entry nf data) (enumerate 0 ms)) (\<lambda>rows.
           Inr (concat rows)))))"

text \<open>\<^verbatim>\<open>renderLeaderboard\<close> of the first index script in part_000 (line 14): no link on the row.\<close>

definition leaderboard_row_a :: "markup \<Rightarrow> markup \<Rightarrow> markup \<Rightarrow> markup \<Rightarrow> markup \<Rightarrow> markup" where
  \<open>leaderboard_row_a rank name passed tot percentage =
     ''\<newline>            <tr>\<newline>                <td class="rank">'' @ rank
     @ ''</td>\<newline>                <td class="model">'' @ name
     @ ''</td>\<newline>                <td class="score">'' @ passed @ ''/'' @ tot
     @ ''</td>\<newline>                <td class="bar-cell"><div class="bar"><div class="bar-fill" style="width:''
     @ percentage
     @ ''%"></div></div></td>\<newline>            </tr>\<newline>        ''\<close>

definition leaderboard_entry_a :: "(rat \<Rightarrow> string) \<Rightarrow> jsval \<Rightarrow> nat \<times> jsval \<Rightarrow> error + string" where
  "leaderboard_entry_a nf data im =
     (case im of (i, model) \<Rightarrow>
        bind_res (getprop data ''model_stats'') (\<lambda>model_stats.
        bind_res (getkey model_stats (to_str nf model)) (\<lambda>s.
        bind_res (getprop s ''passed'') (\<lambda>passed.
        bind_res (getprop s ''total'') (\<lambda>total.
        bind_res (getprop s ''percentage'') (\<lambda>percentage.
          Inr (leaderboard_row_a (to_str nf (JNum (of_nat i + 1))) (esc nf model)
                 (to_str nf passed) (to_str nf total) (to_str nf percentage))))))))"

definition renderLeaderboard_a :: "(rat \<Rightarrow> string) \<Rightarrow> jsval \<Rightarrow> error + string" where
  "renderLeaderboard_a nf data =
     bind_res (getprop data ''models'') (\<lambda>models.
     bind_res (optchain models ''length'') (\<lambda>len.
       if \<not> truthy len then Inr no_results_yet
       else
         bind_res (as_array models) (\<lambda>ms.
         bind_res (map_res (leaderboard_entry_a nf data) (enumerate 0 ms)) (\<lambda>rows.
           Inr (concat rows)))))"

text \<open>
  \<^verbatim>\<open>renderLeaderboard\<close> of the second index script in part_000 (line 95). It empties the
  body, then appends one \<^verbatim>\<open>tr\<close> element per model; the markup of the body is the
  concatenation of the rows appended. On an exception the result is the exception.
\<close>

definition no_results_available :: string where
  \<open>no_results_available =
     ''<tr><td colspan="4" style="text-align:center">No results available yet</td></tr>''\<close>

definition leaderboard_row_b :: "markup \<Rightarrow> markup \<Rightarrow> markup \<Rightarrow> markup \<Rightarrow> markup \<Rightarrow> markup" where
  \<open>leaderboard_row_b rank name passed tot percentage =
     ''<tr>''
     @ ''\<newline>            <td class="rank">#'' @ rank
     @ ''</td>\<newline>            <td class="model-name">'' @ name
     @ ''</td>\<newline>            <td class="score-pass">'' @ passed @ ''/'' @ tot
     @ ''</td>\<newline>            <td>\<newline>                <div class="progress-bar">\<newline>                    <div class="progress-fill" style="width: ''
     @ percentage
     @ ''%"></div>\<newline>                </div>\<newline>                <span style="margin-left: 10px;">''
     @ percentage
     @ ''%</span>\<newline>            </td>\<newline>        ''
     @ ''</tr>''\<close>

definition leaderboard_entry_b :: "(rat \<Rightarrow> string) \<Rightarrow> jsval \<Rightarrow> nat \<times> jsval \<Rightarrow> error + string" where
  "leaderboard_entry_b nf data im =
     (case im of (index, model) \<Rightarrow>
        bind_res (getprop data ''model_stats'') (\<lambda>model_stats.
        bind_res (getkey model_stats (to_str nf model)) (\<lambda>stats.
          let rank = JNum (of_nat index + 1) in
          bind_res (getprop stats ''passed'') (\<lambda>passed.
          bind_res (getprop stats ''total'') (\<lambda>total.
          bind_res (getprop stats ''percentage'') (\<lambda>percentage.
            Inr (leaderboard_row_b (to_str nf rank) (escapeHtml nf model)
                   (to_str nf passed) (to_str nf total) (to_str nf percentage))))))))"

definition renderLeaderboard_b :: "(rat \<Rightarrow> string) \<Rightarrow> jsval \<Rightarrow> error + string" where
  "renderLeaderboard_b nf data =
     bind_res (getprop data ''models'') (\<lambda>models.
       if \<not> truthy models then Inr no_results_available
       else
         bind_res (getprop models ''length'') (\<lambda>len.
           if len = JNum 0 then Inr no_results_available
           else
             bind_res (as_array models) (\<lambda>ms.
             bind_res (map_res (leaderboard_entry_b nf data) (enumerate 0 ms)) (\<lambda>rows.
               Inr (concat rows)))))"

section \<open>Matrix renderer\<close>

text \<open>
  The matrix renderers write two elements, the head and the body of the results table.
  They are state transformers on the markup of the two. Where a script builds a row
  piece by piece (\<^verbatim>\<open>row.innerHTML += ...\<close>, then \<^verbatim>\<open>appendChild\<close>), the markup of the row is
  the concatenation of the pieces. A renderer that throws returns the exception alone,
  without the elements it had written before.
\<close>

record table_dom =
  thead :: string
  tbody :: string

subsection \<open>\<^verbatim>\<open>renderDetailed\<close> (part_000, line 35)\<close>

definition pass_cell :: string where
  \<open>pass_cell = ''<td class="pass">&#10003;</td>''\<close>

definition fail_cell :: string where
  \<open>fail_cell = ''<td class="fail">&#10007;</td>''\<close>

definition na_cell :: string where
  \<open>na_cell = ''<td class="na">-</td>''\<close>

text \<open>
  The callback of the inner \<^verbatim>\<open>data.exams.map\<close>: the markup of one cell, and whether the
  callback incremented \<^verbatim>\<open>passed\<close>.
\<close>

definition detailed_cell :: "(rat \<Rightarrow> string) \<Rightarrow> jsval \<Rightarrow> jsval \<Rightarrow> jsval \<Rightarrow> error + bool \<times> string" where
  "detailed_cell nf data model exam =
     bind_res (getprop data ''exam_results'') (\<lambda>exam_results.
     bind_res (getkey exam_results (to_str nf exam)) (\<lambda>by_model.
     bind_res (optkey by_model (to_str nf model)) (\<lambda>r.
     bind_res (optchain r ''passed'') (\<lambda>p.
       if p = JBool True then Inr (True, pass_cell)
       else if p = JBool False then Inr (False, fail_cell)
       else Inr (False, na_cell)))))"

definition detailed_row_markup :: "markup \<Rightarrow> markup \<Rightarrow> markup \<Rightarrow> markup \<Rightarrow> markup" where
  \<open>detailed_row_markup name cells passed count =
     ''<tr><td class="model-col">'' @ name @ ''</td>'' @ cells
     @ ''<td class="pass">'' @ passed @ ''/'' @ count @ ''</td></tr>''\<close>

definition detailed_row :: "(rat \<Rightarrow> string) \<Rightarrow> jsval \<Rightarrow> jsval \<Rightarrow> error + string" where
  "detailed_row nf data model =
     bind_res (getprop data ''exams'') (\<lambda>exams.
     bind_res (as_array exams) (\<lambda>es.
     bind_res (map_res (detailed_cell nf data model) es) (\<lambda>cells.
       let passed = length (filter fst cells) in
       bind_res (getprop exams ''length'') (\<lambda>count.
         Inr (detailed_row_markup (esc nf model) (concat (map snd cells))
                (to_str nf (JNum (of_nat passed))) (to_str nf count))))))"

definition detailed_head :: "(rat \<Rightarrow> string) \<Rightarrow> jsval list \<Rightarrow> string" where
  \<open>detailed_head nf es =
     ''<tr><th class="model-col">Model</th>''
     @ concat (map (\<lambda>e. ''<th>'' @ esc nf e @ ''</th>'') es)
     @ ''<th>Total</th></tr>''\<close>

definition renderDetailed :: "(rat \<Rightarrow> string) \<Rightarrow> jsval \<Rightarrow> table_dom \<Rightarrow> error + table_dom" where
  "renderDetailed nf data tbl =
     bind_res (getprop data ''models'') (\<lambda>models.
     bind_res (optchain models ''length'') (\<lambda>mlen.
       if \<not> truthy mlen then Inr tbl
       else
         bind_res (getprop data ''exams'') (\<lambda>exams.
         bind_res (optchain exams ''length'') (\<lambda>elen.
           if \<not> truthy elen then Inr tbl
           else
             bind_res (as_array exams) (\<lambda>es.
             bind_res (as_array models) (\<lambda>ms.
             bind_res (map_res (detailed_row nf data) ms) (\<lambda>rows.
               Inr (tbl\<lparr>thead := detailed_head nf es, tbody := concat rows\<rparr>))))))))"

subsection \<open>\<^verbatim>\<open>renderDetailedResults\<close> (part_000, line 125)\<close>

definition pass_icon :: string where
  \<open>pass_icon = ''<td class="pass-icon">&#10004;</td>''\<close>

definition fail_icon :: string where
  \<open>fail_icon = ''<td class="fail-icon">&#10008;</td>''\<close>

definition na_icon :: string where
  \<open>na_icon = ''<td class="na-icon">'' @ [CHR 0xE2, CHR 0x80, CHR 0x94] @ ''</td>''\<close>

definition no_detailed_results :: string where
  \<open>no_detailed_results =
     ''<tr><td style="text-align:center">No detailed results available</td></tr>''\<close>

text \<open>
  The callback of the inner \<^verbatim>\<open>data.exams.forEach\<close>: the cell it appends to the row, and
  whether it incremented \<^verbatim>\<open>passed\<close>. It increments \<^verbatim>\<open>total\<close> every time.
\<close>

definition detailed_results_cell :: "(rat \<Rightarrow> string) \<Rightarrow> jsval \<Rightarrow> jsval \<Rightarrow> jsval \<Rightarrow> error + bool \<times> string" where
  "detailed_results_cell nf data model exam =
     bind_res (getprop data ''exam_results'') (\<lambda>exam_results.
     bind_res (getkey exam_results (to_str nf exam)) (\<lambda>by_model.
     bind_res (optkey by_model (to_str nf model)) (\<lambda>result.
     bind_res (optchain result ''passed'') (\<lambda>p.
       if p = JBool True then Inr (True, pass_icon)
       else if p = JBool False then Inr (False, fail_icon)
       else Inr (False, na_icon)))))"

definition detailed_results_row_markup :: "markup \<Rightarrow> markup \<Rightarrow> markup \<Rightarrow> markup \<Rightarrow> markup" where
  \<open>detailed_results_row_markup name cells passed tot =
     ''<tr>'' @ ''<td class="model-name">'' @ name @ ''</td>'' @ cells
     @ ''<td class="score-pass">'' @ passed @ ''/'' @ tot @ ''</td>'' @ ''</tr>''\<close>

definition detailed_results_row :: "(rat \<Rightarrow> string) \<Rightarrow> jsval \<Rightarrow> jsval \<Rightarrow> error + string" where
  "detailed_results_row nf data model =
     bind_res (getprop data ''exams'') (\<lambda>exams.
     bind_res (as_array exams) (\<lambda>es.
     bind_res (map_res (detailed_results_cell nf data model) es) (\<lambda>cells.
       let passed = length (filter fst cells);
           total = length cells
       in Inr (detailed_results_row_markup (escapeHtml nf model) (concat (map snd cells))
                 (to_str nf (JNum (of_nat passed))) (to_str nf (JNum (of_nat total)))))))"

definition detailed_results_head :: "(rat \<Rightarrow> string) \<Rightarrow> jsval list \<Rightarrow> string" where
  \<open>detailed_results_head nf es =
     ''<tr>'' @ ''<th>Model</th>''
     @ concat (map (\<lambda>exam. ''<th>'' @ escapeHtml nf exam @ ''</th>'') es)
     @ ''<th>Total</th>'' @ ''</tr>''\<close>

definition renderDetailedResults :: "(rat \<Rightarrow> string) \<Rightarrow> jsval \<Rightarrow> table_dom \<Rightarrow> error + table_dom" where
  "renderDetailedResults nf data tbl =
     (let cleared = tbl\<lparr>thead := [], tbody := []\<rparr>;
          informational = cleared\<lparr>tbody := no_detailed_results\<rparr>
      in
        bind_res (getprop data ''models'') (\<lambda>models.
          if \<not> truthy models then Inr informational
          else
            bind_res (getprop models ''length'') (\<lambda>mlen.
              if mlen = JNum 0 then Inr informational
              else
                bind_res (getprop data ''exams'') (\<lambda>exams.
                  if \<not> truthy exams then Inr informational
                  else
                    bind_res (getprop exams ''length'') (\<lambda>elen.
                      if elen = JNum 0 then Inr informational
                      else
                        bind_res (as_array exams) (\<lambda>es.
                        bind_res (as_array models) (\<lambda>ms.
                        bind_res (map_res (detailed_results_row nf data) ms) (\<lambda>rows.
                          Inr (cleared\<lparr>thead := detailed_results_head nf es,
                                         tbody := concat rows\<rparr>)))))))))"

section \<open>Detail page renderer\<close>

subsection \<open>Evidence sections\<close>

definition renderOutputSection :: "(rat \<Rightarrow> string) \<Rightarrow> string \<Rightarrow> jsval \<Rightarrow> string" where
  \<open>renderOutputSection nf title output =
     (if \<not> truthy output \<or> (case output of JArr xs \<Rightarrow> length xs = 0 | _ \<Rightarrow> False) then []
      else
        (let content = (case output of JArr xs \<Rightarrow> JStr (array_join nf ''\<newline>'' xs) | _ \<Rightarrow> output)
         in ''\<newline>        <div class="detail-section">\<newline>            <h4>'' @ title
            @ ''</h4>\<newline>            <pre class="output-block">'' @ esc nf content
            @ ''</pre>\<newline>        </div>\<newline>    ''))\<close>

definition renderDiffSection :: "(rat \<Rightarrow> string) \<Rightarrow> jsval \<Rightarrow> string" where
  \<open>renderDiffSection nf diff =
     (if \<not> truthy diff then []
      else ''\<newline>        <div class="detail-section">\<newline>            <h4>Code Diff</h4>\<newline>            <pre class="diff-block">''
           @ esc nf diff
           @ ''</pre>\<newline>        </div>\<newline>    '')\<close>

definition renderBootOutput :: "(rat \<Rightarrow> string) \<Rightarrow> jsval \<Rightarrow> string" where
  \<open>renderBootOutput nf bootOutput =
     (if \<not> truthy bootOutput then []
      else ''\<newline>        <div class="detail-section collapsible">\<newline>            <h4 class="collapsible-header" onclick="toggleCollapse(this)">\<newline>                Boot Output <span class="toggle-icon">+</span>\<newline>            </h4>\<newline>            <pre class="output-block collapsed">''
           @ esc nf bootOutput
           @ ''</pre>\<newline>        </div>\<newline>    '')\<close>

definition renderAgentOutput :: "(rat \<Rightarrow> string) \<Rightarrow> jsval \<Rightarrow> string" where
  \<open>renderAgentOutput nf agentOutput =
     (if \<not> truthy agentOutput then
        ''\<newline>            <div class="detail-section">\<newline>                <h4>Agent Output</h4>\<newline>                <p class="no-data">Not available yet</p>\<newline>            </div>\<newline>        ''
      else ''\<newline>        <div class="detail-section collapsible">\<newline>            <h4 class="collapsible-header" onclick="toggleCollapse(this)">\<newline>                Agent Output <span class="toggle-icon">+</span>\<newline>            </h4>\<newline>            <pre class="output-block collapsed">''
           @ esc nf agentOutput
           @ ''</pre>\<newline>        </div>\<newline>    '')\<close>

subsection \<open>Evidence cards\<close>

definition no_result_card :: "markup \<Rightarrow> markup" where
  \<open>no_result_card name =
     ''\<newline>                <div class="exam-card na">\<newline>                    <div class="exam-header">\<newline>                        <span class="exam-name">''
     @ name
     @ ''</span>\<newline>                        <span class="exam-status">No result</span>\<newline>                    </div>\<newline>                </div>\<newline>            ''\<close>

definition result_card :: "markup \<Rightarrow> markup \<Rightarrow> markup \<Rightarrow> markup \<Rightarrow> markup \<Rightarrow> markup \<Rightarrow> markup \<Rightarrow> markup \<Rightarrow> markup \<Rightarrow> markup" where
  \<open>result_card statusClass name duration statusText expected actual diff boot agent =
     ''\<newline>            <div class="exam-card '' @ statusClass
     @ ''">\<newline>                <div class="exam-header">\<newline>                    <span class="exam-name">''
     @ name
     @ ''</span>\<newline>                    <div class="exam-meta">\<newline>                        ''
     @ duration
     @ ''\<newline>                        <span class="exam-status">'' @ statusText
     @ ''</span>\<newline>                    </div>\<newline>                </div>\<newline>                <div class="exam-details">\<newline>                    ''
     @ expected
     @ ''\<newline>                    '' @ actual
     @ ''\<newline>                    '' @ diff
     @ ''\<newline>                    '' @ boot
     @ ''\<newline>                    '' @ agent
     @ ''\<newline>                </div>\<newline>            </div>\<newline>        ''\<close>

text \<open>The callback of \<^verbatim>\<open>data.exams.map\<close> in \<^verbatim>\<open>renderExams\<close>.\<close>

definition exam_card :: "(rat \<Rightarrow> string) \<Rightarrow> jsval \<Rightarrow> jsval \<Rightarrow> error + string" where
  "exam_card nf detailed exam =
     bind_res (getkey detailed (to_str nf exam)) (\<lambda>result.
       if \<not> truthy result then Inr (no_result_card (esc nf exam))
       else
         bind_res (getprop result ''passed'') (\<lambda>passed.
           let statusClass = (if truthy passed then ''pass'' else ''fail'');
               statusText = (if truthy passed then ''PASSED'' else ''FAILED'')
           in
             bind_res (getprop result ''duration_seconds'') (\<lambda>duration_seconds.
             bind_res (renderDuration nf duration_seconds) (\<lambda>duration.
             bind_res (getprop result ''expected'') (\<lambda>expected.
             bind_res (getprop result ''output'') (\<lambda>output.
             bind_res (getprop result ''diff'') (\<lambda>diff.
             bind_res (getprop result ''boot_output'') (\<lambda>boot_output.
             bind_res (getprop result ''agent_output'') (\<lambda>agent_output.
               Inr (result_card statusClass (esc nf exam) duration statusText
                      (renderOutputSection nf ''Expected Output'' expected)
                      (renderOutputSection nf ''Actual Output'' output)
                      (renderDiffSection nf diff)
                      (renderBootOutput nf boot_output)
                      (renderAgentOutput nf agent_output)))))))))))"

definition no_exam_results :: string where
  \<open>no_exam_results = ''<p class="no-data">No exam results available</p>''\<close>

text \<open>\<^verbatim>\<open>renderExams\<close>: the markup assigned to the container of the cards.\<close>

definition renderExams :: "(rat \<Rightarrow> string) \<Rightarrow> string \<Rightarrow> jsval \<Rightarrow> error + string" where
  "renderExams nf modelName data =
     bind_res (getprop data ''detailed_results'') (\<lambda>detailed_results.
     bind_res (optkey detailed_results modelName) (\<lambda>detailed.
       if \<not> truthy detailed then Inr no_exam_results
       else
         bind_res (getprop data ''exams'') (\<lambda>exams.
         bind_res (optchain exams ''length'') (\<lambda>len.
           if \<not> truthy len then Inr no_exam_results
           else
             bind_res (as_array exams) (\<lambda>es.
             bind_res (map_res (exam_card nf detailed) es) (\<lambda>cards.
               Inr (concat cards)))))))"

subsection \<open>The page\<close>

text \<open>
  What the detail page script can change: where the window navigates, the document
  title, the text of the two header elements and the markup of the card container.
\<close>

record page =
  navigated_to :: "string option"
  doc_title :: string
  model_name_text :: string
  model_stats_text :: string
  exams_container :: string

text \<open>
  \<^verbatim>\<open>renderHeader\<close> writes the title and the name before it reads the statistics, so it
  returns the page as it stands together with the exception, if any.
\<close>

definition renderHeader :: "(rat \<Rightarrow> string) \<Rightarrow> string \<Rightarrow> jsval \<Rightarrow> page \<Rightarrow> error option \<times> page" where
  "renderHeader nf modelName data pg =
     (let pg1 = pg\<lparr>doc_title := modelName @ '' - calcolatori-bench'',
                    model_name_text := modelName\<rparr>
      in
        case bind_res (getprop data ''model_stats'') (\<lambda>model_stats.
               getkey model_stats modelName) of
          Inl e \<Rightarrow> (Some e, pg1)
        | Inr stats \<Rightarrow>
            if truthy stats then
              (case bind_res (getprop stats ''passed'') (\<lambda>passed.
                    bind_res (getprop stats ''total'') (\<lambda>total.
                    bind_res (getprop stats ''percentage'') (\<lambda>percentage.
                      Inr (to_str nf passed @ ''/'' @ to_str nf total @ '' exams passed (''
                           @ to_str nf percentage @ ''%)'')))) of
                 Inl e \<Rightarrow> (Some e, pg1)
               | Inr summary \<Rightarrow> (None, pg1\<lparr>model_stats_text := summary\<rparr>))
            else (None, pg1))"

text \<open>\<^verbatim>\<open>data.models?.includes(modelName)\<close>, read as a condition.\<close>

fun models_include :: "jsval \<Rightarrow> string \<Rightarrow> error + bool" where
  "models_include JUndefined modelName = Inr False"
| "models_include JNull modelName = Inr False"
| "models_include (JArr xs) modelName = Inr (JStr modelName \<in> set xs)"
| "models_include (JStr s) modelName = Inr (sublist modelName s)"
| "models_include v modelName = Inl TypeError"

definition redirect_to_index :: "page \<Rightarrow> page" where
  "redirect_to_index pg = pg\<lparr>navigated_to := Some ''index.html''\<rparr>"

definition load_failed :: "page \<Rightarrow> page" where
  \<open>load_failed pg = pg\<lparr>exams_container := ''<p class="error">Failed to load results</p>''\<rparr>\<close>

text \<open>
  The \<^verbatim>\<open>DOMContentLoaded\<close> handler of the detail page. \<open>query\<close> is
  \<^verbatim>\<open>params.get('model')\<close>; \<open>fetched\<close> is the parsed document, or \<open>None\<close> when the fetch or
  the parse rejects. The handler catches every exception of the program.
\<close>

definition detail_page :: "(rat \<Rightarrow> string) \<Rightarrow> string option \<Rightarrow> jsval option \<Rightarrow> page \<Rightarrow> error + page" where
  "detail_page nf query fetched pg =
     (case query of
        None \<Rightarrow> Inr (redirect_to_index pg)
      | Some modelName \<Rightarrow>
          if modelName = [] then Inr (redirect_to_index pg)
          else
            (case fetched of
               None \<Rightarrow> Inr (load_failed pg)
             | Some data \<Rightarrow>
                 (case bind_res (getprop data ''models'') (\<lambda>models.
                         models_include models modelName) of
                    Inl e \<Rightarrow> Inr (load_failed pg)
                  | Inr listed \<Rightarrow>
                      if \<not> listed then Inr (redirect_to_index pg)
                      else
                        (case renderHeader nf modelName data pg of
                           (Some TypeError, pg1) \<Rightarrow> Inr (load_failed pg1)
                         | (Some Unsupported, pg1) \<Rightarrow> Inl Unsupported
                         | (None, pg1) \<Rightarrow>
                             (case renderExams nf modelName data of
                                Inl TypeError \<Rightarrow> Inr (load_failed pg1)
                              | Inl Unsupported \<Rightarrow> Inl Unsupported
                              | Inr cards \<Rightarrow> Inr (pg1\<lparr>exams_container := cards\<rparr>))))))"

section \<open>A printer for the examples\<close>

text \<open>
  The examples below need a value for the parameter \<open>nf\<close>. \<open>decimal_nf\<close> prints the decimal
  expansion of a number, cut after 17 fractional digits; on a number with a short
  terminating expansion, such as \<open>30.5\<close>, this is what the platform prints.
\<close>

fun frac_digits :: "nat \<Rightarrow> rat \<Rightarrow> string" where
  "frac_digits 0 r = []"
| "frac_digits (Suc k) r =
     (if r = 0 then []
      else digit_char (nat \<lfloor>r * 10\<rfloor>) # frac_digits k (r * 10 - of_int \<lfloor>r * 10\<rfloor>))"

definition decimal_nf :: "rat \<Rightarrow> string" where
  "decimal_nf q =
     (if q < 0 then ''-'' else []) @ show_nat (nat \<lfloor>\<bar>q\<bar>\<rfloor>) @ ''.''
     @ frac_digits 17 (\<bar>q\<bar> - of_int \<lfloor>\<bar>q\<bar>\<rfloor>)"

section \<open>Example documents\<close>

text \<open>
  The scenario of the specification: two models, one exam, and a result for the first
  model only. The second document has no models.
\<close>

definition sample_doc :: jsval where
  "sample_doc = JObj
     [(''models'', JArr [JStr ''A'', JStr ''B'']),
      (''exams'', JArr [JStr ''E1'']),
      (''model_stats'', JObj
         [(''A'', JObj [(''passed'', JNum 1), (''total'', JNum 1), (''percentage'', JNum 100)]),
          (''B'', JObj [(''passed'', JNum 0), (''total'', JNum 1), (''percentage'', JNum 0)])]),
      (''exam_results'', JObj [(''E1'', JObj [(''A'', JObj [(''passed'', JBool True)])])]),
      (''detailed_results'', JObj
         [(''A'', JObj
            [(''E1'', JObj
               [(''passed'', JBool True),
                (''duration_seconds'', JNum (181 / 2)),
                (''expected'', JArr [JStr ''ok'']),
                (''output'', JStr ''ok'')])])])]"

definition empty_doc :: jsval where
  "empty_doc = JObj
     [(''models'', JArr []), (''exams'', JArr [JStr ''E1'']),
      (''model_stats'', JObj []), (''exam_results'', JObj []), (''detailed_results'', JObj []),
      (''total_models'', JNum 0), (''total_exams'', JNum 1)]"

text \<open>A model is listed but has no statistics.\<close>

definition missing_stats_doc :: jsval where
  "missing_stats_doc = JObj
     [(''models'', JArr [JStr ''A'']), (''exams'', JArr []),
      (''model_stats'', JObj []), (''exam_results'', JObj []), (''detailed_results'', JObj []),
      (''total_models'', JNum 1), (''total_exams'', JNum 0)]"

text \<open>Entries whose \<^verbatim>\<open>passed\<close> is not a boolean, or is missing.\<close>

definition loose_flags_doc :: jsval where
  "loose_flags_doc = JObj
     [(''models'', JArr [JStr ''A'', JStr ''B'']),
      (''exams'', JArr [JStr ''E1'']),
      (''exam_results'', JObj
         [(''E1'', JObj [(''A'', JObj [(''passed'', JStr ''yes'')]), (''B'', JObj [])])])]"


definition blank_page :: page where
  "blank_page = \<lparr>navigated_to = None, doc_title = [], model_name_text = [],
     model_stats_text = [], exams_container = []\<rparr>"


text \<open>A model whose name is a tag.\<close>

definition bold_name_doc :: jsval where
  "bold_name_doc = JObj
     [(''models'', JArr [JStr ''<b>'']),
      (''exams'', JArr [JStr ''E1'']),
      (''model_stats'', JObj
         [(''<b>'', JObj [(''passed'', JNum 1), (''total'', JNum 1), (''percentage'', JNum 100)])]),
      (''exam_results'', JObj [(''E1'', JObj [(''<b>'', JObj [(''passed'', JBool True)])])])]"

section \<open>Auxiliary facts\<close>








lemma enumerate_eq_map: "enumerate 0 xs = map (\<lambda>i. (i, xs ! i)) [0..<length xs]"
  by (rule nth_equalityI) (simp_all add: nth_enumerate_eq)










section \<open>The duration formatter\<close>






section \<open>The escaper\<close>

lemma parse_serialize: "parse_text (serialize_text s) = s"
  by (induction s rule: serialize_text.induct) (auto simp: esc_char_def)

lemma serialize_no_angle:
  "CHR ''<'' \<notin> set (serialize_text s)" "CHR ''>'' \<notin> set (serialize_text s)"
  by (induction s rule: serialize_text.induct) (auto simp: esc_char_def)

lemma serialize_special:
  "serialize_text (CHR ''&'' # cs) = ''&amp;'' @ serialize_text cs"
  "serialize_text (CHR ''<'' # cs) = ''&lt;'' @ serialize_text cs"
  "serialize_text (CHR ''>'' # cs) = ''&gt;'' @ serialize_text cs"
  "serialize_text (CHR 0x22 # cs) = CHR 0x22 # serialize_text cs"
  by (cases cs; simp add: esc_char_def)+

lemma name_hole_safe:
  "CHR ''<'' \<notin> set (esc nf v)" "CHR ''>'' \<notin> set (esc nf v)"
  "CHR ''<'' \<notin> set (escapeHtml nf v)" "CHR ''>'' \<notin> set (escapeHtml nf v)"
  by (simp_all add: esc_def escapeHtml_def serialize_no_angle)

lemma bold_name_rendered:
  "esc nf (JStr ''<b>'') = ''&lt;b&gt;''"
  "escapeHtml nf (JStr ''<b>'') = ''&lt;b&gt;''"
  "renderLeaderboard nf bold_name_doc =
     Inr (leaderboard_row ''%3Cb%3E'' ''1'' ''&lt;b&gt;'' ''1'' ''1'' ''100'')"
  "renderLeaderboard_a nf bold_name_doc =
     Inr (leaderboard_row_a ''1'' ''&lt;b&gt;'' ''1'' ''1'' ''100'')"
  "renderLeaderboard_b nf bold_name_doc =
     Inr (leaderboard_row_b ''1'' ''&lt;b&gt;'' ''1'' ''1'' ''100'')"
  "detailed_row nf bold_name_doc (JStr ''<b>'') =
     Inr (detailed_row_markup ''&lt;b&gt;'' pass_cell ''1'' ''1'')"
  "detailed_results_row nf bold_name_doc (JStr ''<b>'') =
     Inr (detailed_results_row_markup ''&lt;b&gt;'' pass_icon ''1'' ''1'')"
  by code_simp+

lemma header_name_is_text: "model_name_text (snd (renderHeader nf modelName data pg)) = modelName"
  by (simp add: renderHeader_def Let_def split: sum.splits)

text \<open>
  C4, as stated, fails for the double quote: the escaper returns it unchanged.
\<close>

theorem quote_not_escaped_counterexample:
  \<open>esc decimal_nf (JStr ''say "hi"'') = ''say "hi"'' \<and>
   escapeHtml decimal_nf (JStr ''say "hi"'') = ''say "hi"'' \<and>
   esc decimal_nf (JStr ''<a href="x">'') = ''&lt;a href="x"&gt;''\<close>
  by code_simp

text \<open>
  C4, amended. The escaper loses no information: the text can be read back from its
  output, so different texts have different outputs. It replaces \<^verbatim>\<open>&\<close>, \<^verbatim>\<open><\<close> and \<^verbatim>\<open>>\<close> by
  their character references and leaves the double quote as it is; its output contains
  neither \<^verbatim>\<open><\<close> nor \<^verbatim>\<open>>\<close>. A model named \<^verbatim>\<open><b>\<close> therefore appears as \<^verbatim>\<open>&lt;b&gt;\<close> in the
  rows of the leaderboards and of the matrices (and percent-encoded in the link of the
  row), and the header of the detail page shows the name as text.
\<close>

theorem escaper_properties:
  \<open>parse_text (serialize_text s) = s \<and>
   inj serialize_text \<and>
   serialize_text (CHR ''&'' # cs) = ''&amp;'' @ serialize_text cs \<and>
   serialize_text (CHR ''<'' # cs) = ''&lt;'' @ serialize_text cs \<and>
   serialize_text (CHR ''>'' # cs) = ''&gt;'' @ serialize_text cs \<and>
   serialize_text (CHR 0x22 # cs) = CHR 0x22 # serialize_text cs \<and>
   CHR ''<'' \<notin> set (esc nf v) \<and> CHR ''>'' \<notin> set (esc nf v) \<and>
   CHR ''<'' \<notin> set (escapeHtml nf v) \<and> CHR ''>'' \<notin> set (escapeHtml nf v) \<and>
   esc nf (JStr ''<b>'') = ''&lt;b&gt;'' \<and>
   escapeHtml nf (JStr ''<b>'') = ''&lt;b&gt;'' \<and>
   renderLeaderboard nf bold_name_doc =
     Inr (leaderboard_row ''%3Cb%3E'' ''1'' ''&lt;b&gt;'' ''1'' ''1'' ''100'') \<and>
   renderLeaderboard_a nf bold_name_doc =
     Inr (leaderboard_row_a ''1'' ''&lt;b&gt;'' ''1'' ''1'' ''100'') \<and>
   renderLeaderboard_b nf bold_name_doc =
     Inr (leaderboard_row_b ''1'' ''&lt;b&gt;'' ''1'' ''1'' ''100'') \<and>
   detailed_row nf bold_name_doc (JStr ''<b>'') =
     Inr (detailed_row_markup ''&lt;b&gt;'' pass_cell ''1'' ''1'') \<and>
   detailed_results_row nf bold_name_doc (JStr ''<b>'') =
     Inr (detailed_results_row_markup ''&lt;b&gt;'' pass_icon ''1'' ''1'') \<and>
   model_name_text (snd (renderHeader nf ''<b>'' data pg)) = ''<b>''\<close>
proof -
  have "inj serialize_text"
    by (rule inj_on_inverseI[where g = parse_text]) (rule parse_serialize)
  then show ?thesis
    using parse_serialize[of s] serialize_special[of cs] name_hole_safe[of nf v]
      bold_name_rendered[of nf] header_name_is_text[of nf "''<b>''" data pg]
    by blast
qed

section \<open>The leaderboard\<close>










subsection \<open>Missing statistics\<close>

text \<open>
  C1. The document \<open>missing_stats_doc\<close> lists the model \<^verbatim>\<open>A\<close> and has no statistics for
  it (\<^verbatim>\<open>"models":["A"]\<close>, \<^verbatim>\<open>"model_stats":{}\<close>). Each of the three leaderboard renderers
  throws a \<^verbatim>\<open>TypeError\<close> on it, where the header of the detail page completes and leaves
  the statistics line as it was.
\<close>

theorem leaderboard_missing_stats_throws:
  "renderLeaderboard decimal_nf missing_stats_doc = Inl TypeError \<and>
   renderLeaderboard_a decimal_nf missing_stats_doc = Inl TypeError \<and>
   renderLeaderboard_b decimal_nf missing_stats_doc = Inl TypeError \<and>
   renderHeader decimal_nf ''A'' missing_stats_doc blank_page =
     (None, blank_page\<lparr>doc_title := ''A - calcolatori-bench'', model_name_text := ''A''\<rparr>)"
  by (simp add: renderLeaderboard_def renderLeaderboard_a_def renderLeaderboard_b_def
      renderHeader_def missing_stats_doc_def leaderboard_entry_def leaderboard_entry_a_def
      leaderboard_entry_b_def optchain_def own_lookup_def enumerate_eq_map
      object_prototype_names_def)

section \<open>The matrix\<close>

lemma cell_of_flag:
  assumes "getprop data ''exam_results'' = Inr results"
    and "getkey results (to_str nf exam) = Inr by_model"
    and "optkey by_model (to_str nf model) = Inr r"
    and "optchain r ''passed'' = Inr p"
  shows "detailed_cell nf data model exam =
      Inr (if p = JBool True then (True, pass_cell)
           else if p = JBool False then (False, fail_cell) else (False, na_cell))"
    and "detailed_results_cell nf data model exam =
      Inr (if p = JBool True then (True, pass_icon)
           else if p = JBool False then (False, fail_icon) else (False, na_icon))"
  using assms
  by (simp_all add: detailed_cell_def detailed_results_cell_def del: to_str.simps)








subsection \<open>Entries without a boolean flag\<close>

text \<open>
  C10. Let the entry \<open>r\<close> of a pair be present and let its \<^verbatim>\<open>passed\<close> be neither the
  boolean \<^verbatim>\<open>true\<close> nor the boolean \<^verbatim>\<open>false\<close>: a missing field, a string, a number.
  Both matrix renderers then produce what they produce for an absent pair: the neutral
  marker, and no increment of \<^verbatim>\<open>passed\<close>.
\<close>

theorem matrix_non_boolean_flag:
  assumes "getprop data ''exam_results'' = Inr results"
    and "getkey results (to_str nf exam) = Inr by_model"
    and "optkey by_model (to_str nf model) = Inr r"
    and "optchain r ''passed'' = Inr p"
    and "p \<noteq> JBool True"
    and "p \<noteq> JBool False"
  shows "detailed_cell nf data model exam = Inr (False, na_cell) \<and>
    detailed_results_cell nf data model exam = Inr (False, na_icon)"
  using cell_of_flag[OF assms(1-4)] assms(5,6) by simp

lemma loose_flags_matrix:
  "renderDetailed decimal_nf loose_flags_doc \<lparr>thead = [], tbody = []\<rparr> =
     Inr \<lparr>thead = detailed_head decimal_nf [JStr ''E1''],
          tbody = detailed_row_markup ''A'' na_cell ''0'' ''1''
                  @ detailed_row_markup ''B'' na_cell ''0'' ''1''\<rparr>"
  "renderDetailedResults decimal_nf loose_flags_doc \<lparr>thead = [], tbody = []\<rparr> =
     Inr \<lparr>thead = detailed_results_head decimal_nf [JStr ''E1''],
          tbody = detailed_results_row_markup ''A'' na_icon ''0'' ''1''
                  @ detailed_results_row_markup ''B'' na_icon ''0'' ''1''\<rparr>"
  by code_simp+

theorem matrix_non_boolean_flag_witness:
  "getprop loose_flags_doc ''exam_results'' =
     Inr (JObj [(''E1'', JObj [(''A'', JObj [(''passed'', JStr ''yes'')]), (''B'', JObj [])])]) \<and>
   optchain (JObj [(''passed'', JStr ''yes'')]) ''passed'' = Inr (JStr ''yes'') \<and>
   optchain (JObj []) ''passed'' = Inr JUndefined \<and>
   detailed_cell decimal_nf loose_flags_doc (JStr ''A'') (JStr ''E1'') = Inr (False, na_cell) \<and>
   detailed_results_cell decimal_nf loose_flags_doc (JStr ''A'') (JStr ''E1'') =
     Inr (False, na_icon) \<and>
   detailed_cell decimal_nf loose_flags_doc (JStr ''B'') (JStr ''E1'') = Inr (False, na_cell) \<and>
   detailed_results_cell decimal_nf loose_flags_doc (JStr ''B'') (JStr ''E1'') =
     Inr (False, na_icon)"
proof -
  let ?a = "JObj [(''passed'', JStr ''yes'')]"
  let ?e1 = "JObj [(''A'', ?a), (''B'', JObj [])]"
  have res: "getprop loose_flags_doc ''exam_results'' = Inr (JObj [(''E1'', ?e1)])"
    by (simp add: loose_flags_doc_def own_lookup_def)
  have bm: "getkey (JObj [(''E1'', ?e1)]) (to_str decimal_nf (JStr ''E1'')) = Inr ?e1"
    by (simp add: own_lookup_def)
  have ra: "optkey ?e1 (to_str decimal_nf (JStr ''A'')) = Inr ?a"
    by (simp add: optkey_def)
  have rb: "optkey ?e1 (to_str decimal_nf (JStr ''B'')) = Inr (JObj [])"
    by (simp add: optkey_def)
  have pa: "optchain ?a ''passed'' = Inr (JStr ''yes'')"
    by (simp add: optchain_def own_lookup_def)
  have pb: "optchain (JObj []) ''passed'' = Inr JUndefined"
    by (simp add: optchain_def own_lookup_def)
  have a: "detailed_cell decimal_nf loose_flags_doc (JStr ''A'') (JStr ''E1'') = Inr (False, na_cell) \<and>
    detailed_results_cell decimal_nf loose_flags_doc (JStr ''A'') (JStr ''E1'') = Inr (False, na_icon)"
    by (rule matrix_non_boolean_flag[OF res bm ra pa]) simp_all
  have b: "detailed_cell decimal_nf loose_flags_doc (JStr ''B'') (JStr ''E1'') = Inr (False, na_cell) \<and>
    detailed_results_cell decimal_nf loose_flags_doc (JStr ''B'') (JStr ''E1'') = Inr (False, na_icon)"
    by (rule matrix_non_boolean_flag[OF res bm rb pb]) simp_all
  show ?thesis using res pa pb a b by simp
qed

subsection \<open>No models or no exams\<close>

text \<open>
  C5. On the document \<open>empty_doc\<close>, which has one exam and no models
  (\<^verbatim>\<open>"models":[]\<close>, \<^verbatim>\<open>"exams":["E1"]\<close>), \<^verbatim>\<open>renderDetailedResults\<close> empties the
  table and writes its informational row, whereas \<^verbatim>\<open>renderDetailed\<close> returns at once and
  leaves head and body as they were: it renders nothing.
\<close>

theorem matrix_empty_models:
  "renderDetailedResults nf empty_doc tbl =
     Inr (tbl\<lparr>thead := [], tbody := no_detailed_results\<rparr>) \<and>
   renderDetailed nf empty_doc tbl = Inr tbl"
  by (simp add: renderDetailedResults_def renderDetailed_def empty_doc_def own_lookup_def
      optchain_def)

section \<open>The detail page\<close>

subsection \<open>Redirects\<close>

text \<open>
  C6. When the request names no model (no \<^verbatim>\<open>model\<close> parameter, or an empty one), and when
  the document is loaded and the named model is not an element of \<^verbatim>\<open>models\<close> (or there is
  no \<^verbatim>\<open>models\<close>), the handler of the detail page sets the location to \<^verbatim>\<open>index.html\<close> and
  changes nothing else: the title, the header texts and the card container are as they
  were.
\<close>

theorem detail_page_redirects:
  "(query = None \<or> query = Some [] \<longrightarrow>
      detail_page nf query fetched pg = Inr (pg\<lparr>navigated_to := Some ''index.html''\<rparr>)) \<and>
   (getprop data ''models'' = Inr (JArr ms) \<and> JStr modelName \<notin> set ms \<longrightarrow>
      detail_page nf (Some modelName) (Some data) pg =
        Inr (pg\<lparr>navigated_to := Some ''index.html''\<rparr>)) \<and>
   (getprop data ''models'' = Inr JUndefined \<longrightarrow>
      detail_page nf (Some modelName) (Some data) pg =
        Inr (pg\<lparr>navigated_to := Some ''index.html''\<rparr>))"
  by (auto simp: detail_page_def redirect_to_index_def)

theorem detail_page_redirects_witness:
  "detail_page decimal_nf None (Some sample_doc) blank_page =
     Inr (blank_page\<lparr>navigated_to := Some ''index.html''\<rparr>) \<and>
   getprop sample_doc ''models'' = Inr (JArr [JStr ''A'', JStr ''B'']) \<and>
   JStr ''C'' \<notin> set [JStr ''A'', JStr ''B''] \<and>
   detail_page decimal_nf (Some ''C'') (Some sample_doc) blank_page =
     Inr (blank_page\<lparr>navigated_to := Some ''index.html''\<rparr>) \<and>
   getprop (JObj []) ''models'' = Inr JUndefined \<and>
   detail_page decimal_nf (Some ''A'') (Some (JObj [])) blank_page =
     Inr (blank_page\<lparr>navigated_to := Some ''index.html''\<rparr>)"
proof -
  have m: "getprop sample_doc ''models'' = Inr (JArr [JStr ''A'', JStr ''B''])"
    by (simp add: sample_doc_def own_lookup_def)
  have c: "JStr ''C'' \<notin> set [JStr ''A'', JStr ''B'']"
    by simp
  have u: "getprop (JObj []) ''models'' = Inr JUndefined"
    by (simp add: own_lookup_def)
  have 1: "detail_page decimal_nf None (Some sample_doc) blank_page =
     Inr (blank_page\<lparr>navigated_to := Some ''index.html''\<rparr>)"
    using detail_page_redirects[where query = None and nf = decimal_nf
        and fetched = "Some sample_doc" and pg = blank_page]
    by simp
  have 2: "detail_page decimal_nf (Some ''C'') (Some sample_doc) blank_page =
     Inr (blank_page\<lparr>navigated_to := Some ''index.html''\<rparr>)"
    using detail_page_redirects[where data = sample_doc and ms = "[JStr ''A'', JStr ''B'']"
        and modelName = "''C''" and nf = decimal_nf and pg = blank_page] m c
    by blast
  have 3: "detail_page decimal_nf (Some ''A'') (Some (JObj [])) blank_page =
     Inr (blank_page\<lparr>navigated_to := Some ''index.html''\<rparr>)"
    using detail_page_redirects[where data = "JObj []" and modelName = "''A''"
        and nf = decimal_nf and pg = blank_page] u
    by blast
  show ?thesis using m c u 1 2 3 by simp
qed

subsection \<open>Evidence cards\<close>









subsection \<open>Boot output and agent output\<close>



end
